theory Spec2Isabelle
  imports Main
begin

section \<open>Values, exceptions and callables\<close>

text \<open>
  The library composes arbitrary Python callables. The Python values modelled are
  \<^verbatim>\<open>None\<close>, \<^verbatim>\<open>NotImplemented\<close>, integers, strings, tuples and lists; an exception carries the name of
  its class and its message. A callable takes its positional arguments, its keyword
  arguments (in call order) and the state of the world its side effects act on; it
  returns a value or raises, and leaves a new state.
\<close>

datatype pyval =
    PNone
  | PInt int
  | PStr string
  | PTuple "pyval list"
  | PList "pyval list"
  | PNotImplemented

datatype exn = Exn (etype: string) (emsg: string)

type_synonym 'u outcome = "(exn + pyval) \<times> 'u"

type_synonym 'u pycallable = "pyval list \<Rightarrow> (string \<times> pyval) list \<Rightarrow> 'u \<Rightarrow> 'u outcome"

text \<open>A name between single quotes, as Python's messages print it.\<close>

definition squote :: "string \<Rightarrow> string" where
  "squote s = CHR 0x27 # s @ [CHR 0x27]"

text \<open>The name Python prints for the type of a value.\<close>

fun type_name :: "pyval \<Rightarrow> string" where
  "type_name PNone = ''NoneType''"
| "type_name (PInt _) = ''int''"
| "type_name (PStr _) = ''str''"
| "type_name (PTuple _) = ''tuple''"
| "type_name (PList _) = ''list''"
| "type_name PNotImplemented = ''NotImplementedType''"

text \<open>
  The star of \<^verbatim>\<open>g(*v)\<close>: the elements of a tuple or a list, the characters of a
  string, and a TypeError for a value that is not iterable. (CPython puts the name of
  the called function in front of the message; a callable has no name here.)
\<close>

fun star_args :: "pyval \<Rightarrow> exn + pyval list" where
  "star_args (PTuple vs) = Inr vs"
| "star_args (PList vs) = Inr vs"
| "star_args (PStr s) = Inr (map (\<lambda>c. PStr [c]) s)"
| "star_args v =
     Inl (Exn ''TypeError'' (''argument after * must be an iterable, not '' @ type_name v))"

section \<open>compose.py\<close>

text \<open>
  \<^verbatim>\<open>def inner(*args, **kwargs): return g(f(*args, **kwargs))\<close>
\<close>

definition compose_no_ret_unpack :: "'u pycallable \<Rightarrow> 'u pycallable \<Rightarrow> 'u pycallable" where
  "compose_no_ret_unpack f g = (\<lambda>args kwargs u.
     case f args kwargs u of
       (Inl e, u') \<Rightarrow> (Inl e, u')
     | (Inr r, u') \<Rightarrow> g [r] [] u')"

text \<open>
  \<^verbatim>\<open>def inner(*args, **kwargs): return g(*f(*args, **kwargs))\<close>
\<close>

definition compose_ret_tuple_unpack :: "'u pycallable \<Rightarrow> 'u pycallable \<Rightarrow> 'u pycallable" where
  "compose_ret_tuple_unpack f g = (\<lambda>args kwargs u.
     case f args kwargs u of
       (Inl e, u') \<Rightarrow> (Inl e, u')
     | (Inr r, u') \<Rightarrow>
         (case star_args r of
            Inl e \<Rightarrow> (Inl e, u')
          | Inr vs \<Rightarrow> g vs [] u'))"

definition compose :: "'u pycallable \<Rightarrow> 'u pycallable \<Rightarrow> 'u pycallable" where
  "compose f g = compose_no_ret_unpack f g"

section \<open>pipeline.py\<close>

text \<open>
  The three classes: \<^verbatim>\<open>Pipeline\<close>, \<^verbatim>\<open>_PipeStd\<close> and \<^verbatim>\<open>_PipeTUn\<close>. A stage
  object has its class and the attribute \<^verbatim>\<open>f\<close>, which is \<^verbatim>\<open>None\<close> on the mixin
  (and so on \<^verbatim>\<open>Pipeline\<close>, which has no field).
\<close>

datatype cls = Pipeline_cls | PipeStd_cls | PipeTUn_cls

record 'u stage =
  cls :: cls
  self_f :: "'u pycallable option"

text \<open>The class attribute \<^verbatim>\<open>_compose_type\<close>.\<close>

fun compose_type :: "cls \<Rightarrow> string" where
  "compose_type Pipeline_cls = ''no_compose''"
| "compose_type PipeStd_cls = ''regular''"
| "compose_type PipeTUn_cls = ''tuple_unpack''"

text \<open>What \<^verbatim>\<open>{type(self)}\<close> prints in a message.\<close>

fun type_repr :: "cls \<Rightarrow> string" where
  "type_repr Pipeline_cls = ''<class 'pypipeline.pipeline.Pipeline'>''"
| "type_repr PipeStd_cls = ''<class 'pypipeline.pipeline._PipeStd'>''"
| "type_repr PipeTUn_cls = ''<class 'pypipeline.pipeline._PipeTUn'>''"

text \<open>The constructors \<^verbatim>\<open>Pipeline()\<close>, \<^verbatim>\<open>_PipeStd(f)\<close> and \<^verbatim>\<open>_PipeTUn(f)\<close>.\<close>

definition Pipeline :: "'u stage" where
  "Pipeline = \<lparr>cls = Pipeline_cls, self_f = None\<rparr>"

definition PipeStd :: "'u pycallable \<Rightarrow> 'u stage" where
  "PipeStd f = \<lparr>cls = PipeStd_cls, self_f = Some f\<rparr>"

definition PipeTUn :: "'u pycallable \<Rightarrow> 'u stage" where
  "PipeTUn f = \<lparr>cls = PipeTUn_cls, self_f = Some f\<rparr>"

text \<open>
  \<^verbatim>\<open>_then_impl\<close>: the argument \<^verbatim>\<open>result_unpack\<close> is \<^verbatim>\<open>None\<close> or a string.
\<close>

definition then_impl :: "'u pycallable \<Rightarrow> string option \<Rightarrow> exn + 'u stage" where
  "then_impl f result_unpack =
     (case result_unpack of
        None \<Rightarrow> Inr (PipeStd f)
      | Some m \<Rightarrow>
          if m = ''tuple'' then Inr (PipeTUn f)
          else Inl (Exn ''ValueError'' (''Unsupported unpack result: '' @ m)))"

text \<open>\<^verbatim>\<open>_compose_self_with\<close>, branch by branch.\<close>

definition compose_self_with :: "'u stage \<Rightarrow> 'u pycallable \<Rightarrow> exn + 'u pycallable" where
  "compose_self_with self g =
     (if compose_type (cls self) = ''no_compose'' then Inr g
      else case self_f self of
        None \<Rightarrow>
          Inl (Exn ''ValueError''
            (''Wrong compose type '' @ compose_type (cls self) @ '' for '' @ type_repr (cls self)))
      | Some sf \<Rightarrow>
          if compose_type (cls self) = ''regular'' then Inr (compose_no_ret_unpack sf g)
          else if compose_type (cls self) = ''tuple_unpack'' then Inr (compose_ret_tuple_unpack sf g)
          else Inl (Exn ''ValueError'' (''Unsupported compose type: '' @ compose_type (cls self))))"

text \<open>\<^verbatim>\<open>_then\<close>: compose first, then build the new stage.\<close>

definition then_inner :: "'u stage \<Rightarrow> 'u pycallable \<Rightarrow> string option \<Rightarrow> exn + 'u stage" where
  "then_inner self g result_unpack =
     (case compose_self_with self g of
        Inl e \<Rightarrow> Inl e
      | Inr func \<Rightarrow> then_impl func result_unpack)"

text \<open>
  The public \<^verbatim>\<open>then\<close> of the three classes has one body,
  \<^verbatim>\<open>return self._then(f, result_unpack=result_unpack)\<close>; \<^verbatim>\<open>__rshift__\<close> is
  \<^verbatim>\<open>return self.then(f)\<close>.
\<close>

definition then_stage :: "'u stage \<Rightarrow> 'u pycallable \<Rightarrow> string option \<Rightarrow> exn + 'u stage" where
  "then_stage self g result_unpack = then_inner self g result_unpack"

definition rshift :: "'u stage \<Rightarrow> 'u pycallable \<Rightarrow> exn + 'u stage" where
  "rshift self g = then_stage self g None"

text \<open>
  The body of \<^verbatim>\<open>_PipeBase.call\<close>, \<^verbatim>\<open>return self.f(*args, **kwargs)\<close>, on the
  parameters Python has bound. \<^verbatim>\<open>Pipeline\<close> does not inherit it, and calling
  \<^verbatim>\<open>None\<close> is a TypeError.
\<close>

definition call :: "'u stage \<Rightarrow> 'u pycallable" where
  "call self args kwargs u =
     (if cls self = Pipeline_cls
      then (Inl (Exn ''AttributeError''
              (squote ''Pipeline'' @ '' object has no attribute '' @ squote ''call'')), u)
      else case self_f self of
        None \<Rightarrow> (Inl (Exn ''TypeError'' (squote ''NoneType'' @ '' object is not callable'')), u)
      | Some sf \<Rightarrow> sf args kwargs u)"


text \<open>
  The method call \<^verbatim>\<open>stage.call(*args, **kwargs)\<close>. Python binds the receiver to the
  first parameter of \<^verbatim>\<open>def call(self, *args, **kwargs)\<close>, which is not positional-only:
  a keyword argument named \<^verbatim>\<open>self\<close> collides with it and the call raises before the body
  runs. \<open>call\<close> above is the body on bound parameters. On \<^verbatim>\<open>Pipeline\<close> the lookup
  of the attribute fails first.
\<close>

definition multiple_values_for_self :: exn where
  "multiple_values_for_self =
     Exn ''TypeError'' (''_PipeBase.call() got multiple values for argument '' @ squote ''self'')"

definition bind_self :: "'u pycallable \<Rightarrow> 'u pycallable" where
  "bind_self body args kwargs u =
     (if ''self'' \<in> set (map fst kwargs) then (Inl multiple_values_for_self, u)
      else body args kwargs u)"

definition call_method :: "'u stage \<Rightarrow> 'u pycallable" where
  "call_method self args kwargs u =
     (if cls self = Pipeline_cls then call self args kwargs u
      else bind_self (call self) args kwargs u)"

subsection \<open>The warnings module\<close>

text \<open>
  \<^verbatim>\<open>warnings.warn\<close> and \<^verbatim>\<open>warnings.warn_explicit\<close> of the standard library, after
  \<^verbatim>\<open>Lib/warnings.py\<close>. The installed filters give every warning an action; they are not
  changed during a run, so the state holds the action they give to the warning at hand and
  the registries that the version check would otherwise clear. A location is the name of a
  module and a line number; the key of a warning in the registry of its module is its
  text, its category and its line. What \<^verbatim>\<open>_showwarnmsg\<close> is handed (printed, or
  collected by \<^verbatim>\<open>catch_warnings\<close>) is kept in a list, oldest first.
\<close>

datatype action = Act_error | Act_ignore | Act_always | Act_default | Act_module | Act_once

record warning =
  message :: string
  category :: string
  in_module :: string
  lineno :: nat

record warnings_state =
  w_action :: action
  w_registry :: "(string \<times> string \<times> string \<times> nat) list"
  w_onceregistry :: "(string \<times> string) list"
  w_shown :: "warning list"

definition show_warning :: "warning \<Rightarrow> warnings_state \<Rightarrow> warnings_state" where
  "show_warning x w = w\<lparr>w_shown := w_shown w @ [x]\<rparr>"

definition warn_explicit ::
  "string \<Rightarrow> string \<Rightarrow> string \<Rightarrow> nat \<Rightarrow> warnings_state \<Rightarrow> exn + warnings_state" where
  "warn_explicit msg cat mdl ln w =
     (let key = (mdl, msg, cat, ln);
          x = \<lparr>message = msg, category = cat, in_module = mdl, lineno = ln\<rparr>
      in if key \<in> set (w_registry w) then Inr w
         else case w_action w of
           Act_ignore \<Rightarrow> Inr w
         | Act_error \<Rightarrow> Inl (Exn cat msg)
         | Act_once \<Rightarrow>
             (let w1 = w\<lparr>w_registry := key # w_registry w\<rparr>
              in if (msg, cat) \<in> set (w_onceregistry w1) then Inr w1
                 else Inr (show_warning x
                        (w1\<lparr>w_onceregistry := (msg, cat) # w_onceregistry w1\<rparr>)))
         | Act_always \<Rightarrow> Inr (show_warning x w)
         | Act_module \<Rightarrow>
             (let w1 = w\<lparr>w_registry := key # w_registry w\<rparr>;
                  altkey = (mdl, msg, cat, 0)
              in if altkey \<in> set (w_registry w1) then Inr w1
                 else Inr (show_warning x (w1\<lparr>w_registry := altkey # w_registry w1\<rparr>)))
         | Act_default \<Rightarrow> Inr (show_warning x (w\<lparr>w_registry := key # w_registry w\<rparr>)))"

text \<open>
  \<^verbatim>\<open>warn(message, category, stacklevel)\<close> with \<^verbatim>\<open>stacklevel = skip + 1\<close>: the
  warning is attributed to the frame \<open>skip\<close> frames above the caller of \<^verbatim>\<open>warn\<close>.
  \<open>stack\<close> lists the locations of the frames from that caller outwards, none of them
  a frame of the import machinery, which \<^verbatim>\<open>warn\<close> would skip; past its end the
  location is line 1 of \<^verbatim>\<open>sys\<close>.
\<close>

definition warn ::
  "string \<Rightarrow> string \<Rightarrow> nat \<Rightarrow> (string \<times> nat) list \<Rightarrow> warnings_state
     \<Rightarrow> exn + warnings_state" where
  "warn msg cat skip stack w =
     (case drop skip stack of
        [] \<Rightarrow> warn_explicit msg cat ''sys'' 1 w
      | (mdl, ln) # _ \<Rightarrow> warn_explicit msg cat mdl ln w)"

text \<open>The state of an interpreter that has warned of nothing yet.\<close>

definition no_warnings_yet :: "action \<Rightarrow> warnings_state" where
  "no_warnings_yet a = \<lparr>w_action = a, w_registry = [], w_onceregistry = [], w_shown = []\<rparr>"

subsection \<open>The operator \<^verbatim>\<open>|\<close>\<close>

text \<open>
  \<^verbatim>\<open>_warnings.py\<close>: line 9 calls \<^verbatim>\<open>warn\<close> with \<^verbatim>\<open>stacklevel=3\<close>. \<open>stack\<close> lists
  the frames from the caller of \<^verbatim>\<open>warning_unstable_feature_or_operator\<close> outwards.
\<close>

definition unstable_message :: string where
  "unstable_message = ''Operator `|` is experimental/unstable. Prefer `call` method instead.''"

definition warning_unstable_feature_or_operator ::
  "(string \<times> nat) list \<Rightarrow> warnings_state \<Rightarrow> exn + warnings_state" where
  "warning_unstable_feature_or_operator stack w =
     warn unstable_message ''UnstableFeatureWarning'' 2 ((''pypipeline._warnings'', 9) # stack) w"

text \<open>
  \<^verbatim>\<open>__or__\<close> of \<^verbatim>\<open>_PipeStd\<close> (its first statement is line 129 of
  \<^verbatim>\<open>pipeline.py\<close>) and of \<^verbatim>\<open>_PipeTUn\<close> (line 151), one body: warn, then
  \<^verbatim>\<open>return self.call(*args, **kwargs)\<close>. \<open>callers\<close> lists the frames from the one
  that evaluates the operator outwards; the state is the state of the warnings module and
  the world of the callables. An exception of \<^verbatim>\<open>warn\<close> ends the method.
\<close>

definition or_method ::
  "nat \<Rightarrow> 'u stage \<Rightarrow> pyval list \<Rightarrow> (string \<times> pyval) list \<Rightarrow> (string \<times> nat) list
     \<Rightarrow> warnings_state \<times> 'u \<Rightarrow> (exn + pyval) \<times> (warnings_state \<times> 'u)" where
  "or_method line self args kwargs callers st =
     (case warning_unstable_feature_or_operator ((''pypipeline.pipeline'', line) # callers) (fst st) of
        Inl e \<Rightarrow> (Inl e, st)
      | Inr w' \<Rightarrow>
          (case call_method self args kwargs (snd st) of
             (r, u') \<Rightarrow> (r, (w', u'))))"

text \<open>The names of the classes, as messages print them.\<close>

fun class_name :: "cls \<Rightarrow> string" where
  "class_name Pipeline_cls = ''Pipeline''"
| "class_name PipeStd_cls = ''_PipeStd''"
| "class_name PipeTUn_cls = ''_PipeTUn''"

definition unsupported_operand :: "cls \<Rightarrow> pyval \<Rightarrow> exn" where
  "unsupported_operand c x =
     Exn ''TypeError'' (''unsupported operand type(s) for |: '' @ squote (class_name c)
       @ '' and '' @ squote (type_name x))"

text \<open>
  The expression \<^verbatim>\<open>stage | x\<close>. The operator hands \<^verbatim>\<open>__or__\<close> its one right operand
  and takes a result \<^verbatim>\<open>NotImplemented\<close> to mean that the left operand does not support
  the operation; it then asks the right operand for \<^verbatim>\<open>__ror__\<close>, which none of the
  values modelled provides for a stage, and raises TypeError. \<^verbatim>\<open>Pipeline\<close> defines no
  \<^verbatim>\<open>__or__\<close>.
\<close>

definition not_implemented_is_unsupported ::
  "cls \<Rightarrow> pyval \<Rightarrow> (exn + pyval) \<times> 's \<Rightarrow> (exn + pyval) \<times> 's" where
  "not_implemented_is_unsupported c x out =
     (if fst out = Inr PNotImplemented then (Inl (unsupported_operand c x), snd out) else out)"

definition pipe_or ::
  "'u stage \<Rightarrow> pyval \<Rightarrow> (string \<times> nat) list \<Rightarrow> warnings_state \<times> 'u
     \<Rightarrow> (exn + pyval) \<times> (warnings_state \<times> 'u)" where
  "pipe_or self x callers st =
     (case cls self of
        Pipeline_cls \<Rightarrow> (Inl (unsupported_operand Pipeline_cls x), st)
      | PipeStd_cls \<Rightarrow>
          not_implemented_is_unsupported PipeStd_cls x (or_method 129 self [x] [] callers st)
      | PipeTUn_cls \<Rightarrow>
          not_implemented_is_unsupported PipeTUn_cls x (or_method 151 self [x] [] callers st))"

section \<open>Expressions over stages\<close>

text \<open>
  A method chain such as \<^verbatim>\<open>Pipeline().then(f).then(g).call(x)\<close> is evaluated from
  the left, and an exception raised by one \<^verbatim>\<open>then\<close> ends the whole expression:
  \<open>chain_then r g m\<close> is \<^verbatim>\<open>r.then(g, result_unpack=m)\<close> and \<open>chain_call r\<close> is
  \<^verbatim>\<open>r.call(...)\<close> for an expression \<open>r\<close> that has built a stage or has raised;
  \<open>chain_call\<close> runs the body of \<^verbatim>\<open>call\<close> and \<open>chain_call_method\<close> binds the
  parameters first.
\<close>

definition chain_then :: "exn + 'u stage \<Rightarrow> 'u pycallable \<Rightarrow> string option \<Rightarrow> exn + 'u stage" where
  "chain_then r g result_unpack =
     (case r of Inl e \<Rightarrow> Inl e | Inr s \<Rightarrow> then_stage s g result_unpack)"

definition chain_call :: "exn + 'u stage \<Rightarrow> 'u pycallable" where
  "chain_call r args kwargs u =
     (case r of Inl e \<Rightarrow> (Inl e, u) | Inr s \<Rightarrow> call s args kwargs u)"

definition chain_call_method :: "exn + 'u stage \<Rightarrow> 'u pycallable" where
  "chain_call_method r args kwargs u =
     (case r of Inl e \<Rightarrow> (Inl e, u) | Inr s \<Rightarrow> call_method s args kwargs u)"

text \<open>Appending a list of callables, each with its \<^verbatim>\<open>result_unpack\<close>, one after the other.\<close>

fun thens :: "exn + 'u stage \<Rightarrow> ('u pycallable \<times> string option) list \<Rightarrow> exn + 'u stage" where
  "thens r [] = r"
| "thens r ((g, result_unpack) # rest) = thens (chain_then r g result_unpack) rest"

text \<open>The values of \<^verbatim>\<open>result_unpack\<close> that \<^verbatim>\<open>_then_impl\<close> accepts.\<close>

fun valid_unpack :: "string option \<Rightarrow> bool" where
  "valid_unpack None = True"
| "valid_unpack (Some m) = (m = ''tuple'')"

section \<open>What a pipeline is meant to compute\<close>

text \<open>
  The reference the pipeline is compared with, written from the description of the
  library and not from its code. \<open>apply1 g r\<close> is the Python expression \<^verbatim>\<open>g(r)\<close>
  for an argument expression that has returned a value or has raised; \<open>apply_star g r\<close>
  is \<^verbatim>\<open>g(*r)\<close>.
\<close>

fun apply1 :: "'u pycallable \<Rightarrow> 'u outcome \<Rightarrow> 'u outcome" where
  "apply1 g (Inl e, u) = (Inl e, u)"
| "apply1 g (Inr v, u) = g [v] [] u"

fun apply_star :: "'u pycallable \<Rightarrow> 'u outcome \<Rightarrow> 'u outcome" where
  "apply_star g (Inl e, u) = (Inl e, u)"
| "apply_star g (Inr v, u) =
     (case star_args v of Inl e \<Rightarrow> (Inl e, u) | Inr vs \<Rightarrow> g vs [] u)"

text \<open>The callables of a list applied from left to right, each to the result of the one before.\<close>

fun apply_all :: "'u pycallable list \<Rightarrow> 'u outcome \<Rightarrow> 'u outcome" where
  "apply_all [] r = r"
| "apply_all (g # gs) r = apply_all gs (apply1 g r)"

text \<open>
  The same with the unpacking of each joint: \<open>m\<close> is the \<^verbatim>\<open>result_unpack\<close> of the
  stage whose result \<open>r\<close> is, and decides how the next callable receives it.
\<close>

definition hand_off :: "string option \<Rightarrow> 'u pycallable \<Rightarrow> 'u outcome \<Rightarrow> 'u outcome" where
  "hand_off m g r = (if m = Some ''tuple'' then apply_star g r else apply1 g r)"

fun run_rest :: "string option \<Rightarrow> ('u pycallable \<times> string option) list \<Rightarrow> 'u outcome \<Rightarrow> 'u outcome" where
  "run_rest m [] r = r"
| "run_rest m ((g, m') # rest) r = run_rest m' rest (hand_off m g r)"



section \<open>Stages the public interface can build\<close>

text \<open>
  A stage is built when it is \<^verbatim>\<open>Pipeline()\<close> or what \<^verbatim>\<open>then\<close> (and so
  \<^verbatim>\<open>>>\<close>) returned on a built stage, for a callable and any \<^verbatim>\<open>result_unpack\<close>.
\<close>

inductive built :: "'u stage \<Rightarrow> bool" where
  built_Pipeline: "built Pipeline"
| built_then: "built s \<Longrightarrow> then_stage s g result_unpack = Inr s' \<Longrightarrow> built s'"


section \<open>Stage objects in a store\<close>









section \<open>Callables for the examples\<close>

text \<open>
  User code for the concrete runs below. The world of these callables is a counter of
  the calls that returned or raised on purpose, so a run shows how often and in which
  order the pipeline invoked them.
\<close>

fun inc :: "nat pycallable" where
  "inc [PInt n] [] u = (Inr (PInt (n + 1)), Suc u)"
| "inc _ _ u = (Inl (Exn ''TypeError'' ''inc() takes one int''), u)"

fun dbl :: "nat pycallable" where
  "dbl [PInt n] [] u = (Inr (PInt (2 * n)), Suc u)"
| "dbl _ _ u = (Inl (Exn ''TypeError'' ''dbl() takes one int''), u)"

text \<open>\<^verbatim>\<open>lambda n: (n // 5, n % 5)\<close>\<close>

fun divmod5 :: "nat pycallable" where
  "divmod5 [PInt n] [] u = (Inr (PTuple [PInt (n div 5), PInt (n mod 5)]), Suc u)"
| "divmod5 _ _ u = (Inl (Exn ''TypeError'' ''divmod5() takes one int''), u)"

text \<open>\<^verbatim>\<open>lambda q, r: 10 * q + r\<close>\<close>

fun join_digits :: "nat pycallable" where
  "join_digits [PInt q, PInt r] [] u = (Inr (PInt (10 * q + r)), Suc u)"
| "join_digits _ _ u = (Inl (Exn ''TypeError'' ''join_digits() takes two ints''), u)"

text \<open>\<^verbatim>\<open>def raise_custom(*args, **kwargs): raise CustomError("oops")\<close>\<close>

definition raise_custom :: "nat pycallable" where
  "raise_custom args kwargs u = (Inl (Exn ''CustomError'' ''oops''), Suc u)"

text \<open>\<^verbatim>\<open>def name_plus(a: str, *, b: int): return len(a) + b\<close>\<close>

definition name_plus :: "nat pycallable" where
  "name_plus args kwargs u =
     (case args of
        [PStr a] \<Rightarrow>
          (case kwargs of
             [(k, PInt b)] \<Rightarrow>
               if k = ''b'' then (Inr (PInt (int (length a) + b)), Suc u)
               else (Inl (Exn ''TypeError'' ''name_plus() got an unexpected keyword argument''), u)
           | _ \<Rightarrow> (Inl (Exn ''TypeError'' ''name_plus() needs the keyword argument b''), u))
      | _ \<Rightarrow> (Inl (Exn ''TypeError'' ''name_plus() takes one str''), u))"

text \<open>\<^verbatim>\<open>def count_kwargs(*args, **kwargs): return len(kwargs)\<close>\<close>

definition count_kwargs :: "nat pycallable" where
  "count_kwargs args kwargs u = (Inr (PInt (int (length kwargs))), Suc u)"

text \<open>\<^verbatim>\<open>lambda x: NotImplemented\<close>\<close>

definition not_impl :: "nat pycallable" where
  "not_impl args kwargs u = (Inr PNotImplemented, Suc u)"


section \<open>How the stages compose\<close>

lemma cls_PipeStd: "cls (PipeStd f) = PipeStd_cls"
  by (simp add: PipeStd_def)

lemma cls_PipeTUn: "cls (PipeTUn f) = PipeTUn_cls"
  by (simp add: PipeTUn_def)

lemma then_stage_Pipeline: "then_stage Pipeline g m = then_impl g m"
  by (simp add: then_stage_def then_inner_def compose_self_with_def Pipeline_def)

lemma then_stage_PipeStd:
  "then_stage (PipeStd sf) g m = then_impl (compose_no_ret_unpack sf g) m"
  by (simp add: then_stage_def then_inner_def compose_self_with_def PipeStd_def)

lemma then_stage_PipeTUn:
  "then_stage (PipeTUn sf) g m = then_impl (compose_ret_tuple_unpack sf g) m"
  by (simp add: then_stage_def then_inner_def compose_self_with_def PipeTUn_def)

lemma call_PipeStd: "call (PipeStd f) = f"
  by (rule ext)+ (simp add: call_def PipeStd_def)

lemma call_PipeTUn: "call (PipeTUn f) = f"
  by (rule ext)+ (simp add: call_def PipeTUn_def)

lemma compose_no_ret_unpack_apply1:
  "compose_no_ret_unpack f g args kwargs u = apply1 g (f args kwargs u)"
  by (auto simp: compose_no_ret_unpack_def split: prod.splits sum.splits)

lemma compose_ret_tuple_unpack_apply_star:
  "compose_ret_tuple_unpack f g args kwargs u = apply_star g (f args kwargs u)"
  by (auto simp: compose_ret_tuple_unpack_def split: prod.splits sum.splits)

lemma chain_then_then_impl:
  "valid_unpack m \<Longrightarrow>
   chain_then (then_impl f m) g m' =
     then_impl (if m = None then compose_no_ret_unpack f g else compose_ret_tuple_unpack f g) m'"
  by (cases m) (simp_all add: chain_then_def then_impl_def then_stage_PipeStd then_stage_PipeTUn)

lemma chain_call_then_impl:
  "valid_unpack m \<Longrightarrow> chain_call (then_impl f m) args kwargs u = f args kwargs u"
  by (cases m) (simp_all add: chain_call_def then_impl_def call_PipeStd call_PipeTUn)

text \<open>
  The central fact: a stage built on \<open>f\<close> and extended by any list of callables with
  accepted flags runs \<open>f\<close> on the caller's arguments and hands each result on as the
  flag of its stage says.
\<close>

lemma thens_run:
  "valid_unpack m \<Longrightarrow> list_all (\<lambda>p. valid_unpack (snd p)) post \<Longrightarrow>
   chain_call (thens (then_impl f m) post) args kwargs u = run_rest m post (f args kwargs u)"
proof (induction post arbitrary: f m)
  case Nil
  then show ?case by (simp add: chain_call_then_impl)
next
  case (Cons p post)
  obtain g m' where p: "p = (g, m')" by (cases p)
  from Cons.prems have m': "valid_unpack m'" and rest: "list_all (\<lambda>p. valid_unpack (snd p)) post"
    by (simp_all add: p)
  define c where "c = (if m = None then compose_no_ret_unpack f g else compose_ret_tuple_unpack f g)"
  have "thens (then_impl f m) (p # post) = thens (then_impl c m') post"
    using Cons.prems(1) by (simp add: p c_def chain_then_then_impl)
  then have "chain_call (thens (then_impl f m) (p # post)) args kwargs u
      = run_rest m' post (c args kwargs u)"
    using Cons.IH [OF m' rest, of c] by simp
  also have "c args kwargs u = hand_off m g (f args kwargs u)"
    using Cons.prems(1)
    by (cases m)
      (simp_all add: c_def hand_off_def compose_no_ret_unpack_apply1
        compose_ret_tuple_unpack_apply_star)
  finally show ?case by (simp add: p)
qed

lemma run_rest_plain: "run_rest None (map (\<lambda>g. (g, None)) gs) r = apply_all gs r"
  by (induction gs arbitrary: r) (simp_all add: hand_off_def)

lemma thens_Inl: "thens (Inl e) post = Inl e"
  by (induction post) (auto simp: chain_then_def)

lemma then_impl_Inr:
  "then_impl func m = Inr s1 \<Longrightarrow> s1 = PipeStd func \<or> s1 = PipeTUn func"
  by (auto simp: then_impl_def split: option.splits if_splits)

lemma then_stage_Inr:
  assumes "then_stage s g m = Inr s1"
  shows "\<exists>func. compose_self_with s g = Inr func \<and> (s1 = PipeStd func \<or> s1 = PipeTUn func)"
  using assms
  by (auto simp: then_stage_def then_inner_def split: sum.splits dest: then_impl_Inr)

lemma compose_self_with_Inr:
  assumes "compose_self_with s g = Inr func"
  shows "(cls s = Pipeline_cls \<and> func = g)
       \<or> (cls s = PipeStd_cls \<and> (\<exists>sf. self_f s = Some sf \<and> func = compose_no_ret_unpack sf g))
       \<or> (cls s = PipeTUn_cls \<and> (\<exists>sf. self_f s = Some sf \<and> func = compose_ret_tuple_unpack sf g))"
  using assms
  by (cases "cls s") (auto simp: compose_self_with_def split: option.splits)

text \<open>A built stage is the empty pipeline or holds a callable.\<close>

lemma built_shape:
  "built s \<Longrightarrow> s = Pipeline \<or> (\<exists>sf. s = PipeStd sf) \<or> (\<exists>sf. s = PipeTUn sf)"
  by (induction rule: built.induct) (auto dest: then_stage_Inr)

lemma built_rshift: "built s \<Longrightarrow> rshift s g = Inr s' \<Longrightarrow> built s'"
  by (auto simp: rshift_def intro: built_then)

lemma built_PipeStd: "built (PipeStd f)"
  by (rule built_then [OF built_Pipeline, of f None]) (simp add: then_stage_Pipeline then_impl_def)

lemma built_PipeTUn: "built (PipeTUn f)"
  by (rule built_then [OF built_Pipeline, of f "Some ''tuple''"])
    (simp add: then_stage_Pipeline then_impl_def)

text \<open>
  The guarded branch of \<^verbatim>\<open>_compose_self_with\<close> is live code: a \<^verbatim>\<open>_PipeStd\<close>
  constructed by hand around \<^verbatim>\<open>None\<close> takes it.
\<close>

lemma compose_self_with_no_callable:
  "compose_self_with \<lparr>cls = PipeStd_cls, self_f = None\<rparr> g =
     Inl (Exn ''ValueError''
       ''Wrong compose type regular for <class 'pypipeline.pipeline._PipeStd'>'')"
  by (simp add: compose_self_with_def)

lemma call_Inr_self_f:
  assumes "call s args kwargs u = (Inr v, u1)"
  shows "\<exists>sf. self_f s = Some sf \<and> sf args kwargs u = (Inr v, u1)"
  using assms by (auto simp: call_def split: if_splits option.splits)

text \<open>Once the call of a stage raises, the call of every extension of it raises the same.\<close>

lemma raise_persists:
  assumes "thens (Inr s) post = Inr p" and "cls s \<noteq> Pipeline_cls"
    and "call s args kwargs u = (Inl e, u')"
  shows "call p args kwargs u = (Inl e, u')"
  using assms
proof (induction post arbitrary: s)
  case Nil
  then show ?case by simp
next
  case (Cons q post)
  obtain g m where q: "q = (g, m)" by (cases q)
  from Cons.prems(1) have t: "thens (then_stage s g m) post = Inr p"
    by (simp add: q chain_then_def)
  then obtain s1 where s1: "then_stage s g m = Inr s1"
    by (cases "then_stage s g m") (simp_all add: thens_Inl)
  from then_stage_Inr [OF s1] obtain func where
    func: "compose_self_with s g = Inr func" and shape: "s1 = PipeStd func \<or> s1 = PipeTUn func"
    by blast
  from compose_self_with_Inr [OF func] Cons.prems(2) obtain sf where
    sf: "self_f s = Some sf"
    and c: "func = compose_no_ret_unpack sf g \<or> func = compose_ret_tuple_unpack sf g"
    by blast
  from sf Cons.prems(2,3) have "sf args kwargs u = (Inl e, u')"
    by (simp add: call_def)
  with c have "func args kwargs u = (Inl e, u')"
    by (auto simp: compose_no_ret_unpack_def compose_ret_tuple_unpack_def)
  with shape have "call s1 args kwargs u = (Inl e, u')" and "cls s1 \<noteq> Pipeline_cls"
    by (auto simp: call_PipeStd call_PipeTUn cls_PipeStd cls_PipeTUn)
  with Cons.IH [of s1] t s1 show ?case by simp
qed


section \<open>Binding, the store and the warnings\<close>

lemma call_method_no_self:
  "''self'' \<notin> set (map fst kwargs) \<Longrightarrow> call_method s args kwargs u = call s args kwargs u"
  by (simp add: call_method_def bind_self_def)

text \<open>With accepted flags every \<^verbatim>\<open>then\<close> of a chain succeeds and the result is a stage that can be called.\<close>

lemma thens_valid:
  "valid_unpack m \<Longrightarrow> list_all (\<lambda>p. valid_unpack (snd p)) post \<Longrightarrow>
   \<exists>p. thens (then_impl f m) post = Inr p \<and> cls p \<noteq> Pipeline_cls"
proof (induction post arbitrary: f m)
  case Nil
  then show ?case
    by (cases m) (simp_all add: then_impl_def cls_PipeStd cls_PipeTUn)
next
  case (Cons q post)
  obtain g m' where q: "q = (g, m')" by (cases q)
  from Cons.prems have m': "valid_unpack m'" and rest: "list_all (\<lambda>p. valid_unpack (snd p)) post"
    by (simp_all add: q)
  from Cons.prems(1) Cons.IH [OF m' rest] show ?case
    by (simp add: q chain_then_then_impl)
qed




text \<open>With \<^verbatim>\<open>stacklevel=3\<close> the warning is attributed to the line of the operator.\<close>

lemma warning_unstable_at_caller:
  "warning_unstable_feature_or_operator (inner # (mdl, ln) # outer) w =
     warn_explicit unstable_message ''UnstableFeatureWarning'' mdl ln w"
  by (simp add: warning_unstable_feature_or_operator_def warn_def)

lemma warn_explicit_not_error:
  "w_action w \<noteq> Act_error \<Longrightarrow> \<exists>w'. warn_explicit msg cat mdl ln w = Inr w'"
  by (cases "w_action w") (simp_all add: warn_explicit_def Let_def)

section \<open>The claims\<close>

text \<open>
  C1. A pipeline built with plain \<^verbatim>\<open>.then()\<close> applies the user callables from left
  to right: \<^verbatim>\<open>Pipeline().then(f).then(g).then(h).call(x)\<close> is \<^verbatim>\<open>h(g(f(x)))\<close>,
  and for any callables \<open>f, g\<^sub>1, \<dots>, g\<^sub>n\<close> the call of the pipeline gives the first one the
  caller's arguments and each later one the single result of the one before as its only
  argument. An exception raised on the way is the outcome of the call on both sides.
\<close>

theorem then_chain_applies_left_to_right:
  "chain_call (chain_then (chain_then (then_stage Pipeline f None) g None) h None) [x] [] u
     = apply1 h (apply1 g (f [x] [] u))
   \<and> chain_call (thens (Inr Pipeline) (map (\<lambda>g. (g, None)) (f # gs))) args kwargs u
     = apply_all gs (f args kwargs u)"
proof
  have "chain_call (thens (then_impl f None) [(g, None), (h, None)]) [x] [] u
      = run_rest None [(g, None), (h, None)] (f [x] [] u)"
    by (rule thens_run) simp_all
  then show "chain_call (chain_then (chain_then (then_stage Pipeline f None) g None) h None) [x] [] u
     = apply1 h (apply1 g (f [x] [] u))"
    by (simp add: then_stage_Pipeline hand_off_def)
next
  have "chain_call (thens (then_impl f None) (map (\<lambda>g. (g, None)) gs)) args kwargs u
      = run_rest None (map (\<lambda>g. (g, None)) gs) (f args kwargs u)"
    by (rule thens_run) (simp_all add: list_all_iff)
  then show "chain_call (thens (Inr Pipeline) (map (\<lambda>g. (g, None)) (f # gs))) args kwargs u
     = apply_all gs (f args kwargs u)"
    by (simp add: run_rest_plain chain_then_def then_stage_Pipeline)
qed

theorem then_chain_applies_left_to_right_witness:
  "chain_call (chain_then (chain_then (then_stage Pipeline inc None) dbl None) inc None)
     [PInt 3] [] 0 = (Inr (PInt 9), 3)
   \<and> chain_call (thens (Inr Pipeline) (map (\<lambda>g. (g, None)) [inc, dbl, dbl, inc])) [PInt 3] [] 0
     = (Inr (PInt 17), 4)"
  using then_chain_applies_left_to_right [of inc dbl inc "PInt 3" 0 "[dbl, dbl, inc]" "[PInt 3]" "[]"]
  by simp

text \<open>
  C2. A stage flagged \<^verbatim>\<open>result_unpack="tuple"\<close> spreads its tuple over the positional
  parameters of the next callable: when \<^verbatim>\<open>f\<close> returns the tuple \<open>vs\<close> on the caller's
  arguments (the pair \<^verbatim>\<open>(a, b)\<close> on \<^verbatim>\<open>x\<close> in particular), then
  \<^verbatim>\<open>Pipeline().then(f, result_unpack="tuple").then(g).call(...)\<close> is \<^verbatim>\<open>g(*vs)\<close>, that is
  \<^verbatim>\<open>g(a, b)\<close>, run in the state \<^verbatim>\<open>f\<close> left.
\<close>

theorem tuple_unpack_spreads_result:
  assumes "f args kwargs u = (Inr (PTuple vs), u')"
  shows "chain_call (chain_then (then_stage Pipeline f (Some ''tuple'')) g None) args kwargs u
     = g vs [] u'"
proof -
  have "chain_call (thens (then_impl f (Some ''tuple'')) [(g, None)]) args kwargs u
      = run_rest (Some ''tuple'') [(g, None)] (f args kwargs u)"
    by (rule thens_run) simp_all
  with assms show ?thesis
    by (simp add: then_stage_Pipeline hand_off_def)
qed

theorem tuple_unpack_spreads_result_witness:
  "divmod5 [PInt 17] [] 0 = (Inr (PTuple [PInt 3, PInt 2]), 1)
   \<and> chain_call (chain_then (then_stage Pipeline divmod5 (Some ''tuple'')) join_digits None)
       [PInt 17] [] 0 = (Inr (PInt 32), 2)"
  using tuple_unpack_spreads_result
    [of divmod5 "[PInt 17]" "[]" 0 "[PInt 3, PInt 2]" 1 join_digits]
  by simp

text \<open>
  C3. The first stage wraps its callable as it is, with no composition:
  \<^verbatim>\<open>Pipeline().then(f)\<close> is a \<^verbatim>\<open>_PipeStd\<close> whose \<^verbatim>\<open>f\<close> is the callable itself (a
  \<^verbatim>\<open>_PipeTUn\<close> with the tuple flag), and \<^verbatim>\<open>Pipeline().then(f).call(...)\<close> is
  \<^verbatim>\<open>f(...)\<close> for all arguments.
\<close>

theorem first_stage_wraps_callable:
  "then_stage Pipeline f None = Inr (PipeStd f)
   \<and> then_stage Pipeline f (Some ''tuple'') = Inr (PipeTUn f)
   \<and> self_f (PipeStd f) = Some f \<and> self_f (PipeTUn f) = Some f
   \<and> chain_call (then_stage Pipeline f None) args kwargs u = f args kwargs u"
proof -
  have "self_f (PipeStd f) = Some f" "self_f (PipeTUn f) = Some f"
    by (simp_all add: PipeStd_def PipeTUn_def)
  then show ?thesis
    by (simp add: then_stage_Pipeline then_impl_def chain_call_def call_PipeStd)
qed

theorem first_stage_wraps_callable_witness:
  "chain_call (then_stage Pipeline divmod5 None) [PInt 17] [] 0
     = (Inr (PTuple [PInt 3, PInt 2]), 1)"
  using first_stage_wraps_callable [of divmod5 "[PInt 17]" "[]" 0]
  by (simp add: chain_call_def call_PipeStd)

text \<open>
  C4. The tuple flag on the last stage does nothing to \<^verbatim>\<open>call\<close>: for every pipeline
  expression \<open>r\<close> and callable \<open>g\<close>, \<^verbatim>\<open>r.then(g, result_unpack="tuple").call(...)\<close> and
  \<^verbatim>\<open>r.then(g).call(...)\<close> have the same outcome for all arguments, and a flagged stage
  that nothing follows returns what its callable returns, the tuple as it is.
\<close>

theorem trailing_tuple_flag_inert:
  "chain_call (chain_then r g (Some ''tuple'')) args kwargs u
     = chain_call (chain_then r g None) args kwargs u
   \<and> call (PipeTUn f) args kwargs u = f args kwargs u"
proof
  show "chain_call (chain_then r g (Some ''tuple'')) args kwargs u
     = chain_call (chain_then r g None) args kwargs u"
  proof (cases r)
    case (Inl e)
    then show ?thesis by (simp add: chain_then_def)
  next
    case (Inr s)
    show ?thesis
    proof (cases "compose_self_with s g")
      case (Inl e)
      with Inr show ?thesis by (simp add: chain_then_def then_stage_def then_inner_def)
    next
      case (Inr func)
      with \<open>r = Inr s\<close> show ?thesis
        by (simp add: chain_then_def then_stage_def then_inner_def then_impl_def
            chain_call_def call_PipeStd call_PipeTUn)
    qed
  qed
next
  show "call (PipeTUn f) args kwargs u = f args kwargs u" by (simp add: call_PipeTUn)
qed

theorem trailing_tuple_flag_inert_witness:
  "chain_call (chain_then (then_stage Pipeline inc None) divmod5 (Some ''tuple'')) [PInt 16] [] 0
     = (Inr (PTuple [PInt 3, PInt 2]), 2)
   \<and> chain_call (chain_then (then_stage Pipeline inc None) divmod5 None) [PInt 16] [] 0
     = (Inr (PTuple [PInt 3, PInt 2]), 2)"
  using trailing_tuple_flag_inert [of "then_stage Pipeline inc None" divmod5 "[PInt 16]" "[]" 0]
  by (simp add: then_stage_Pipeline then_impl_def chain_then_def then_stage_PipeStd
      chain_call_def call_PipeStd compose_no_ret_unpack_def)

text \<open>
  C5. On every stage the public interface can build, the empty \<^verbatim>\<open>Pipeline\<close> included,
  \<^verbatim>\<open>.then(f, result_unpack=X)\<close> with a string \<open>X\<close> other than \<^verbatim>\<open>"tuple"\<close> raises at
  once, when the pipeline is built: a ValueError whose message is
  \<^verbatim>\<open>Unsupported unpack result: \<close> followed by \<open>X\<close>, and no stage is returned.
\<close>

theorem unsupported_unpack_raises:
  assumes "built s" and "X \<noteq> ''tuple''"
  shows "then_stage s f (Some X) = Inl (Exn ''ValueError'' (''Unsupported unpack result: '' @ X))"
  using built_shape [OF assms(1)] assms(2)
  by (auto simp: then_stage_Pipeline then_stage_PipeStd then_stage_PipeTUn then_impl_def)

theorem unsupported_unpack_raises_witness:
  "built (PipeStd inc) \<and> ''bogus'' \<noteq> ''tuple''
   \<and> then_stage (PipeStd inc) dbl (Some ''bogus'')
       = Inl (Exn ''ValueError'' ''Unsupported unpack result: bogus'')"
proof -
  have b: "built (PipeStd inc)" by (rule built_PipeStd)
  have n: "''bogus'' \<noteq> ''tuple''" by simp
  from unsupported_unpack_raises [OF b n, of dbl] b n show ?thesis by simp
qed

text \<open>
  C6. An exception raised by a wrapped callable during \<^verbatim>\<open>call\<close> reaches the caller as
  it is. Let \<open>g\<close> be the callable appended to the stage \<open>s\<close>, followed by any further
  stages. If \<open>g\<close> raises \<open>e\<close> when the call invokes it (as the first callable on the
  caller's arguments, or on the result of \<open>s\<close>, handed over as the flag of \<open>s\<close> says),
  then the call of the whole pipeline raises the same \<open>e\<close>, class and message, and leaves
  the world as \<open>g\<close> left it: nothing catches, wraps or retries, and no later callable runs.
\<close>

theorem callable_error_propagates:
  assumes build: "thens (then_stage s g m) post = Inr p"
    and raises:
      "(cls s = Pipeline_cls \<and> g args kwargs u = (Inl e, u'))
     \<or> (cls s = PipeStd_cls \<and>
          (\<exists>v u1. call s args kwargs u = (Inr v, u1) \<and> g [v] [] u1 = (Inl e, u')))
     \<or> (cls s = PipeTUn_cls \<and>
          (\<exists>v vs u1. call s args kwargs u = (Inr v, u1) \<and> star_args v = Inr vs
             \<and> g vs [] u1 = (Inl e, u')))"
  shows "call p args kwargs u = (Inl e, u')"
proof -
  from build obtain s1 where s1: "then_stage s g m = Inr s1"
    by (cases "then_stage s g m") (simp_all add: thens_Inl)
  from then_stage_Inr [OF s1] obtain func where
    func: "compose_self_with s g = Inr func" and shape: "s1 = PipeStd func \<or> s1 = PipeTUn func"
    by blast
  have "func args kwargs u = (Inl e, u')"
    using compose_self_with_Inr [OF func] raises
    by (auto simp: compose_no_ret_unpack_def compose_ret_tuple_unpack_def
        dest!: call_Inr_self_f)
  with shape have "call s1 args kwargs u = (Inl e, u')" and "cls s1 \<noteq> Pipeline_cls"
    by (auto simp: call_PipeStd call_PipeTUn cls_PipeStd cls_PipeTUn)
  with raise_persists [of s1 post p args kwargs u e u'] build s1 show ?thesis by simp
qed

theorem callable_error_propagates_witness:
  "thens (then_stage (PipeTUn divmod5) raise_custom None) [(dbl, None), (inc, Some ''tuple'')]
     = Inr (PipeTUn (compose_no_ret_unpack
              (compose_no_ret_unpack (compose_ret_tuple_unpack divmod5 raise_custom) dbl) inc))
   \<and> cls (PipeTUn divmod5) = PipeTUn_cls
   \<and> call (PipeTUn divmod5) [PInt 17] [] 0 = (Inr (PTuple [PInt 3, PInt 2]), 1)
   \<and> star_args (PTuple [PInt 3, PInt 2]) = Inr [PInt 3, PInt 2]
   \<and> raise_custom [PInt 3, PInt 2] [] 1 = (Inl (Exn ''CustomError'' ''oops''), 2)
   \<and> call (PipeTUn (compose_no_ret_unpack
              (compose_no_ret_unpack (compose_ret_tuple_unpack divmod5 raise_custom) dbl) inc))
        [PInt 17] [] 0 = (Inl (Exn ''CustomError'' ''oops''), 2)"
proof -
  have b: "thens (then_stage (PipeTUn divmod5) raise_custom None)
      [(dbl, None), (inc, Some ''tuple'')]
     = Inr (PipeTUn (compose_no_ret_unpack
              (compose_no_ret_unpack (compose_ret_tuple_unpack divmod5 raise_custom) dbl) inc))"
    by (simp add: then_stage_PipeTUn then_stage_PipeStd then_impl_def chain_then_def)
  have c: "call (PipeTUn divmod5) [PInt 17] [] 0 = (Inr (PTuple [PInt 3, PInt 2]), 1)"
    by (simp add: call_PipeTUn)
  have r: "raise_custom [PInt 3, PInt 2] [] 1 = (Inl (Exn ''CustomError'' ''oops''), 2)"
    by (simp add: raise_custom_def)
  have "call (PipeTUn (compose_no_ret_unpack
              (compose_no_ret_unpack (compose_ret_tuple_unpack divmod5 raise_custom) dbl) inc))
        [PInt 17] [] 0 = (Inl (Exn ''CustomError'' ''oops''), 2)"
    by (rule callable_error_propagates [OF b]) (use c r in \<open>simp add: cls_PipeTUn\<close>)
  with b c r show ?thesis by (simp add: cls_PipeTUn)
qed



text \<open>
  C8. The error \<^verbatim>\<open>Wrong compose type ...\<close> cannot be reached through the public
  interface: every stage built from \<^verbatim>\<open>Pipeline()\<close> by \<^verbatim>\<open>then\<close> and \<^verbatim>\<open>>>\<close> with
  callables is the empty pipeline or holds a callable, so \<^verbatim>\<open>_compose_self_with\<close>
  returns a callable on it and never raises from the branch that finds \<^verbatim>\<open>f\<close> to be
  \<^verbatim>\<open>None\<close>.
\<close>

theorem wrong_compose_type_unreachable:
  assumes "built s"
  shows "(cls s = Pipeline_cls \<or> (\<exists>sf. self_f s = Some sf))
    \<and> (\<exists>func. compose_self_with s g = Inr func)
    \<and> compose_self_with s g \<noteq> Inl (Exn ''ValueError''
          (''Wrong compose type '' @ compose_type (cls s) @ '' for '' @ type_repr (cls s)))"
  using built_shape [OF assms]
  by (auto simp: compose_self_with_def Pipeline_def PipeStd_def PipeTUn_def)

theorem wrong_compose_type_unreachable_witness:
  "built (PipeTUn divmod5)
   \<and> self_f (PipeTUn divmod5) = Some divmod5
   \<and> compose_self_with (PipeTUn divmod5) join_digits
       = Inr (compose_ret_tuple_unpack divmod5 join_digits)"
proof -
  have b: "built (PipeTUn divmod5)" by (rule built_PipeTUn)
  from wrong_compose_type_unreachable [OF b, of join_digits] b show ?thesis
    by (simp add: compose_self_with_def PipeTUn_def)
qed


text \<open>
  C9, as the code has it. On a non-empty stage every evaluation of \<^verbatim>\<open>stage | x\<close> calls
  \<^verbatim>\<open>warnings.warn\<close> once, with the message that says to prefer \<^verbatim>\<open>call\<close> and the
  category \<^verbatim>\<open>UnstableFeatureWarning\<close>, attributed to the line of the operator. When the
  filters make that warning an error, the operator raises it and the stage is not called.
  Otherwise \<^verbatim>\<open>stage.call(x)\<close> runs once, and the operator returns its result and leaves
  the callables' world as the call leaves it, except that Python's operator protocol
  turns a result \<^verbatim>\<open>NotImplemented\<close> into a TypeError. Whether a use shows the
  warning is for the installed filters to decide; under the action \<^verbatim>\<open>always\<close> each
  use shows it.
\<close>

theorem or_operator_warns_then_calls:
  assumes "cls s \<noteq> Pipeline_cls"
  shows "pipe_or s x ((mdl, ln) # outer) (w, u) =
      (case warn_explicit unstable_message ''UnstableFeatureWarning'' mdl ln w of
         Inl e \<Rightarrow> (Inl e, (w, u))
       | Inr w' \<Rightarrow>
           (if fst (call s [x] [] u) = Inr PNotImplemented
            then (Inl (unsupported_operand (cls s) x), (w', snd (call s [x] [] u)))
            else (fst (call s [x] [] u), (w', snd (call s [x] [] u)))))
    \<and> (w_action w \<noteq> Act_error \<longrightarrow> fst (call s [x] [] u) \<noteq> Inr PNotImplemented \<longrightarrow>
          fst (pipe_or s x ((mdl, ln) # outer) (w, u)) = fst (call s [x] [] u)
        \<and> snd (snd (pipe_or s x ((mdl, ln) # outer) (w, u))) = snd (call s [x] [] u))
    \<and> (w_action w = Act_always \<longrightarrow>
          (mdl, unstable_message, ''UnstableFeatureWarning'', ln) \<notin> set (w_registry w) \<longrightarrow>
          fst (snd (pipe_or s x ((mdl, ln) # outer) (w, u)))
            = show_warning \<lparr>message = unstable_message, category = ''UnstableFeatureWarning'',
                in_module = mdl, lineno = ln\<rparr> w)"
proof -
  have c: "call_method s [x] [] u = call s [x] [] u"
    by (simp add: call_method_no_self)
  have eq: "pipe_or s x ((mdl, ln) # outer) (w, u) =
      (case warn_explicit unstable_message ''UnstableFeatureWarning'' mdl ln w of
         Inl e \<Rightarrow> (Inl e, (w, u))
       | Inr w' \<Rightarrow>
           (if fst (call s [x] [] u) = Inr PNotImplemented
            then (Inl (unsupported_operand (cls s) x), (w', snd (call s [x] [] u)))
            else (fst (call s [x] [] u), (w', snd (call s [x] [] u)))))"
    using assms
    by (cases "cls s")
      (auto simp: pipe_or_def or_method_def warning_unstable_at_caller c
        not_implemented_is_unsupported_def split: sum.splits prod.splits)
  have ok: "w_action w \<noteq> Act_error \<longrightarrow> fst (call s [x] [] u) \<noteq> Inr PNotImplemented \<longrightarrow>
          fst (pipe_or s x ((mdl, ln) # outer) (w, u)) = fst (call s [x] [] u)
        \<and> snd (snd (pipe_or s x ((mdl, ln) # outer) (w, u))) = snd (call s [x] [] u)"
  proof (intro impI)
    assume "w_action w \<noteq> Act_error" and n: "fst (call s [x] [] u) \<noteq> Inr PNotImplemented"
    from warn_explicit_not_error [OF this(1)] obtain w' where
      "warn_explicit unstable_message ''UnstableFeatureWarning'' mdl ln w = Inr w'"
      by blast
    with n show "fst (pipe_or s x ((mdl, ln) # outer) (w, u)) = fst (call s [x] [] u)
        \<and> snd (snd (pipe_or s x ((mdl, ln) # outer) (w, u))) = snd (call s [x] [] u)"
      by (simp add: eq)
  qed
  have always: "w_action w = Act_always \<longrightarrow>
          (mdl, unstable_message, ''UnstableFeatureWarning'', ln) \<notin> set (w_registry w) \<longrightarrow>
          fst (snd (pipe_or s x ((mdl, ln) # outer) (w, u)))
            = show_warning \<lparr>message = unstable_message, category = ''UnstableFeatureWarning'',
                in_module = mdl, lineno = ln\<rparr> w"
    by (simp add: eq warn_explicit_def)
  from eq ok always show ?thesis by blast
qed

theorem or_operator_warns_then_calls_witness:
  "cls (PipeStd inc) \<noteq> Pipeline_cls
   \<and> w_action (no_warnings_yet Act_always) \<noteq> Act_error
   \<and> fst (call (PipeStd inc) [PInt 1] [] 0) \<noteq> Inr PNotImplemented
   \<and> w_action (no_warnings_yet Act_always) = Act_always
   \<and> (''__main__'', unstable_message, ''UnstableFeatureWarning'', 7)
       \<notin> set (w_registry (no_warnings_yet Act_always))
   \<and> pipe_or (PipeStd inc) (PInt 1) [(''__main__'', 7)] (no_warnings_yet Act_always, 0) =
       (Inr (PInt 2),
        show_warning \<lparr>message = unstable_message, category = ''UnstableFeatureWarning'',
          in_module = ''__main__'', lineno = 7\<rparr> (no_warnings_yet Act_always),
        1)"
proof -
  have n: "cls (PipeStd inc) \<noteq> Pipeline_cls" by (simp add: cls_PipeStd)
  from or_operator_warns_then_calls [OF n, of "PInt 1" "''__main__''" 7 "[]"
      "no_warnings_yet Act_always" 0] n
  show ?thesis
    by (simp add: call_PipeStd no_warnings_yet_def warn_explicit_def)
qed

text \<open>
  C9 as the claim has it fails in three ways. A stage whose callable returns
  \<^verbatim>\<open>NotImplemented\<close>: \<^verbatim>\<open>call\<close> returns it and \<^verbatim>\<open>|\<close> raises TypeError. Filters that
  make the warning an error: \<^verbatim>\<open>|\<close> raises the warning and the callable never runs,
  where \<^verbatim>\<open>call\<close> returns 2. Python's default action: of two uses on one line the
  second shows nothing.
\<close>

theorem or_operator_counterexample:
  "fst (pipe_or (PipeStd not_impl) (PInt 1) [(''__main__'', 7)] (no_warnings_yet Act_always, 0))
     = Inl (Exn ''TypeError'' (''unsupported operand type(s) for |: '' @ squote ''_PipeStd''
              @ '' and '' @ squote ''int''))
   \<and> fst (call_method (PipeStd not_impl) [PInt 1] [] 0) = Inr PNotImplemented
   \<and> pipe_or (PipeStd inc) (PInt 1) [(''__main__'', 7)] (no_warnings_yet Act_error, 0)
     = (Inl (Exn ''UnstableFeatureWarning'' unstable_message), (no_warnings_yet Act_error, 0))
   \<and> call_method (PipeStd inc) [PInt 1] [] 0 = (Inr (PInt 2), 1)
   \<and> length (w_shown (fst (snd
        (pipe_or (PipeStd inc) (PInt 1) [(''__main__'', 7)] (no_warnings_yet Act_default, 0)))))
     = 1
   \<and> length (w_shown (fst (snd
        (pipe_or (PipeStd inc) (PInt 1) [(''__main__'', 7)]
          (snd (pipe_or (PipeStd inc) (PInt 1) [(''__main__'', 7)]
                 (no_warnings_yet Act_default, 0)))))))
     = 1"
  by (simp add: pipe_or_def or_method_def warning_unstable_at_caller cls_PipeStd
      not_implemented_is_unsupported_def call_method_def bind_self_def call_PipeStd
      no_warnings_yet_def warn_explicit_def show_warning_def unsupported_operand_def
      not_impl_def)

text \<open>
  C10, as the code has it. \<^verbatim>\<open>call(*args, **kwargs)\<close> forwards the positional and the
  keyword arguments, unchanged, to the first callable of the pipeline, through every
  composed wrapper, unless a keyword is named \<^verbatim>\<open>self\<close>: that one collides with the
  first parameter of \<^verbatim>\<open>def call(self, *args, **kwargs)\<close> and the call raises TypeError
  before any callable runs. For any first callable \<open>f\<close> and any further stages with
  accepted flags, the call is otherwise the rest of the pipeline run on
  \<^verbatim>\<open>f(*args, **kwargs)\<close>; in particular \<^verbatim>\<open>Pipeline().then(f).then(g).call("a", b=1)\<close> is
  \<^verbatim>\<open>g(f("a", b=1))\<close>.
\<close>

theorem kwargs_forwarded_unless_named_self:
  assumes "valid_unpack m" and "list_all (\<lambda>p. valid_unpack (snd p)) post"
  shows "chain_call_method (thens (then_stage Pipeline f m) post) args kwargs u
           = (if ''self'' \<in> set (map fst kwargs) then (Inl multiple_values_for_self, u)
              else run_rest m post (f args kwargs u))
       \<and> chain_call_method (chain_then (then_stage Pipeline f None) g None) args kwargs u
           = (if ''self'' \<in> set (map fst kwargs) then (Inl multiple_values_for_self, u)
              else apply1 g (f args kwargs u))"
proof -
  have run: "chain_call_method (thens (then_impl f m') post') args kwargs u
           = (if ''self'' \<in> set (map fst kwargs) then (Inl multiple_values_for_self, u)
              else run_rest m' post' (f args kwargs u))"
    if v: "valid_unpack m'" and l: "list_all (\<lambda>p. valid_unpack (snd p)) post'" for m' post'
  proof -
    from thens_valid [OF v l] obtain p where
      p: "thens (then_impl f m') post' = Inr p" and c: "cls p \<noteq> Pipeline_cls"
      by blast
    from thens_run [OF v l, of f args kwargs u] p
    have "call p args kwargs u = run_rest m' post' (f args kwargs u)"
      by (simp add: chain_call_def)
    with p c show ?thesis
      by (simp add: chain_call_method_def call_method_def bind_self_def)
  qed
  from run [OF assms] run [of None "[(g, None)]"] show ?thesis
    by (simp add: then_stage_Pipeline hand_off_def)
qed

theorem kwargs_forwarded_unless_named_self_witness:
  "valid_unpack None \<and> list_all (\<lambda>p. valid_unpack (snd p)) [(dbl, None)]
   \<and> chain_call_method (thens (then_stage Pipeline name_plus None) [(dbl, None)])
       [PStr ''a''] [(''b'', PInt 1)] 0 = (Inr (PInt 4), 2)
   \<and> chain_call_method (chain_then (then_stage Pipeline name_plus None) dbl None)
       [PStr ''a''] [(''b'', PInt 1)] 0 = (Inr (PInt 4), 2)
   \<and> chain_call_method (chain_then (then_stage Pipeline count_kwargs None) dbl None)
       [PInt 1] [(''self'', PInt 2)] 0 = (Inl multiple_values_for_self, 0)"
proof -
  have v: "valid_unpack None" by simp
  have l: "list_all (\<lambda>p. valid_unpack (snd p)) [(dbl, None)]" by simp
  from kwargs_forwarded_unless_named_self
         [OF v l, of name_plus "[PStr ''a'']" "[(''b'', PInt 1)]" 0 dbl]
       kwargs_forwarded_unless_named_self
         [OF v l, of count_kwargs "[PInt 1]" "[(''self'', PInt 2)]" 0 dbl]
  show ?thesis by (simp add: name_plus_def hand_off_def)
qed

text \<open>
  C10 as the claim has it fails on a keyword named \<^verbatim>\<open>self\<close>: \<^verbatim>\<open>count_kwargs\<close> takes
  any keyword, and \<^verbatim>\<open>dbl(count_kwargs(1, self=2))\<close> is 2, but
  \<^verbatim>\<open>Pipeline().then(count_kwargs).then(dbl).call(1, self=2)\<close> raises TypeError and runs
  neither callable.
\<close>

theorem kwargs_named_self_counterexample:
  "chain_call_method (chain_then (then_stage Pipeline count_kwargs None) dbl None)
     [PInt 1] [(''self'', PInt 2)] 0
     = (Inl (Exn ''TypeError''
              (''_PipeBase.call() got multiple values for argument '' @ squote ''self'')), 0)
   \<and> apply1 dbl (count_kwargs [PInt 1] [(''self'', PInt 2)] 0) = (Inr (PInt 2), 2)
   \<and> chain_call_method (chain_then (then_stage Pipeline count_kwargs None) dbl None)
       [PInt 1] [(''self'', PInt 2)] 0
     \<noteq> apply1 dbl (count_kwargs [PInt 1] [(''self'', PInt 2)] 0)"
  by (simp add: then_stage_Pipeline then_impl_def chain_then_def then_stage_PipeStd
      chain_call_method_def call_method_def bind_self_def cls_PipeStd count_kwargs_def
      multiple_values_for_self_def)


end
